theory Spec2Isabelle
  imports Complex_Main "HOL-Library.Sublist"
begin

section \<open>Values and exceptions\<close>

text \<open>
  The hook protocol exchanges JSON documents. A parsed document is a Python value built
  from \<^verbatim>\<open>None\<close>, booleans, integers, floats, strings, lists and dictionaries. A
  dictionary is kept as the list of its items; a parsed dictionary has no repeated key,
  and a lookup takes the first item with the key.
\<close>

datatype pyfloat = Finite real | PosInf | NegInf | NaN

datatype json =
    JNull
  | JBool bool
  | JInt int
  | JFloat pyfloat
  | JStr string
  | JList "json list"
  | JObj "(string \<times> json) list"

text \<open>
  The exceptions of \<^verbatim>\<open>wrappers.py\<close> and of the library calls it makes.
  \<^verbatim>\<open>BackendUnavailable\<close>, \<^verbatim>\<open>BackendInvalid\<close> and \<^verbatim>\<open>UnsupportedOperation\<close>
  carry the attributes their constructors store; \<^verbatim>\<open>PyException\<close> stands for any other
  exception a substituted runner or a scope body raises, named by its text.
\<close>

datatype error =
    ValueError string
  | BackendUnavailable json
  | BackendInvalid string "string list option" json
  | UnsupportedOperation json
  | CalledProcessError int "string list"
  | OSError
  | IOError
  | KeyError string
  | AttributeError
  | UnicodeEncodeError
  | PyException string

type_synonym 'a result = "error + 'a"

type_synonym environ = "string \<rightharpoonup> string"

section \<open>The process and its surroundings\<close>

text \<open>
  The file system is a list of entries, a path with what is there: a directory or a file
  holding a JSON document. The process has a working directory, a heap of dictionary
  objects (address 0 is \<^verbatim>\<open>os.environ\<close>; \<open>dict_top\<close> is the last address handed out),
  an operating system that runs a child process (\<open>spawn\<close>: the child sees the argument
  vector, the working directory and the environment it is given, changes the file system
  only, and either cannot be started or ends with an exit status), and the interpreter's
  constants \<^verbatim>\<open>sys.version_info[0]\<close>, \<^verbatim>\<open>sys.executable\<close>, the module constant
  \<^verbatim>\<open>_in_proc_script\<close> and the codec named by \<^verbatim>\<open>sys.getfilesystemencoding()\<close>.
\<close>

datatype node = Dir | File json

type_synonym filesystem = "(string \<times> node) list"

record world =
  getcwd :: string
  entries :: filesystem
  dict_heap :: "nat \<Rightarrow> environ"
  dict_top :: nat
  spawn :: "string list \<Rightarrow> string option \<Rightarrow> environ \<Rightarrow> filesystem \<Rightarrow> int result \<times> filesystem"
  version_major :: nat
  executable :: string
  in_proc_script :: string
  filesystem_encode :: "string \<Rightarrow> string result"

type_synonym runner =
  "string list \<Rightarrow> string option \<Rightarrow> environ option \<Rightarrow> world \<Rightarrow> unit result \<times> world"

section \<open>Paths: \<^verbatim>\<open>os.path\<close> on a POSIX system\<close>

text \<open>
  \<^verbatim>\<open>os.path\<close> is \<^verbatim>\<open>posixpath\<close>: the separator is \<^verbatim>\<open>/\<close>, \<^verbatim>\<open>normcase\<close> changes nothing
  and \<^verbatim>\<open>os.pathsep\<close> is a colon.
\<close>

definition isabs :: "string \<Rightarrow> bool" where
  "isabs s = (case s of [] \<Rightarrow> False | c # _ \<Rightarrow> c = CHR ''/'')"

text \<open>\<^verbatim>\<open>os.path.join(a, b)\<close>, imported by the module as \<^verbatim>\<open>pjoin\<close>.\<close>

definition pjoin :: "string \<Rightarrow> string \<Rightarrow> string" where
  "pjoin a b =
     (if isabs b then b
      else if a = [] \<or> last a = CHR ''/'' then a @ b
      else a @ ''/'' @ b)"

text \<open>\<^verbatim>\<open>path.split('/')\<close>: the pieces between the separators, empty ones included.\<close>

fun split_sep :: "string \<Rightarrow> string list" where
  "split_sep [] = [[]]"
| "split_sep (c # cs) =
     (if c = CHR ''/'' then [] # split_sep cs
      else (case split_sep cs of [] \<Rightarrow> [[c]] | x # xs \<Rightarrow> (c # x) # xs))"

text \<open>\<^verbatim>\<open>sep.join(comps)\<close>.\<close>

fun str_join :: "string \<Rightarrow> string list \<Rightarrow> string" where
  "str_join s [] = []"
| "str_join s [x] = x"
| "str_join s (x # y # ys) = x @ s @ str_join s (y # ys)"

text \<open>
  The number of leading slashes \<^verbatim>\<open>normpath\<close> keeps: none, one, or two when the path
  starts with exactly two.
\<close>

definition initial_slashes :: "string \<Rightarrow> nat" where
  "initial_slashes path =
     (if \<not> isabs path then 0
      else if take 2 path = ''//'' \<and> take 3 path \<noteq> ''///'' then 2
      else 1)"

text \<open>
  The loop of \<^verbatim>\<open>normpath\<close> over the components: empty ones and \<^verbatim>\<open>.\<close> are skipped,
  \<^verbatim>\<open>..\<close> removes the component before it, and is kept only at the start of a relative
  path or after another \<^verbatim>\<open>..\<close>.
\<close>

fun norm_comps :: "nat \<Rightarrow> string list \<Rightarrow> string list \<Rightarrow> string list" where
  "norm_comps i new_comps [] = new_comps"
| "norm_comps i new_comps (part # comps) =
     (if part = [] \<or> part = ''.'' then norm_comps i new_comps comps
      else if part \<noteq> ''..'' \<or> (i = 0 \<and> new_comps = [])
              \<or> (new_comps \<noteq> [] \<and> last new_comps = ''..'')
        then norm_comps i (new_comps @ [part]) comps
      else if new_comps \<noteq> [] then norm_comps i (butlast new_comps) comps
      else norm_comps i new_comps comps)"

definition normpath :: "string \<Rightarrow> string" where
  "normpath path =
     (if path = [] then ''.''
      else
        let i = initial_slashes path;
            comps = norm_comps i [] (split_sep path);
            joined = str_join ''/'' comps;
            p = (if 0 < i then replicate i CHR ''/'' @ joined else joined)
        in if p = [] then ''.'' else p)"

definition abspath :: "world \<Rightarrow> string \<Rightarrow> string" where
  "abspath w path = normpath (if isabs path then path else pjoin (getcwd w) path)"

definition normcase :: "string \<Rightarrow> string" where
  "normcase s = s"

text \<open>
  \<^verbatim>\<open>os.path.commonprefix\<close>: the longest string that starts every string of the list,
  compared character by character (Python finds it between the least and the greatest
  string of the list).
\<close>

fun common_chars :: "string \<Rightarrow> string \<Rightarrow> string" where
  "common_chars (x # xs) (y # ys) = (if x = y then x # common_chars xs ys else [])"
| "common_chars _ _ = []"

fun commonprefix :: "string list \<Rightarrow> string" where
  "commonprefix [] = []"
| "commonprefix (s # ss) = foldl common_chars s ss"

definition pathsep :: string where
  "pathsep = '':''"

text \<open>
  The components of a path, and what it means for a path to lie in a tree:
  the components of the tree's path start the path's components. This is the relation the validator
  is documented to decide (``resolves to a location under the given source tree'').
\<close>

definition components :: "string \<Rightarrow> string list" where
  "components p = filter (\<lambda>c. c \<noteq> []) (split_sep p)"

definition inside_tree :: "string \<Rightarrow> string \<Rightarrow> bool" where
  "inside_tree tree p = prefix (components tree) (components p)"

section \<open>The path validator\<close>

definition norm_and_check :: "world \<Rightarrow> string \<Rightarrow> string \<Rightarrow> string result" where
  "norm_and_check w source_tree requested =
     (if isabs requested then Inl (ValueError ''paths must be relative'')
      else
        let abs_source = abspath w source_tree;
            abs_requested = normpath (pjoin abs_source requested);
            norm_source = normcase abs_source;
            norm_requested = normcase abs_requested
        in if commonprefix [norm_source, norm_requested] \<noteq> norm_source
           then Inl (ValueError ''paths must be inside source tree'')
           else Inr abs_requested)"

section \<open>Files and directories\<close>

text \<open>
  \<^verbatim>\<open>tempfile.mkdtemp()\<close> makes a directory that was not there and returns its absolute
  path. Python draws the name at random and tries again while it exists; here the name
  is one character longer than every path of the file system, hence new. The file system
  has room and grants every access: making a directory and writing a file do not fail.
\<close>

definition fresh_name :: "filesystem \<Rightarrow> string" where
  "fresh_name fs =
     ''/tmp/tmp'' @ replicate (Suc (foldr (\<lambda>e n. max (length (fst e)) n) fs 0)) CHR ''x''"

definition mkdtemp :: "world \<Rightarrow> string \<times> world" where
  "mkdtemp w =
     (let td = fresh_name (entries w)
      in (td, w\<lparr>entries := (td, Dir) # entries w\<rparr>))"

text \<open>
  \<^verbatim>\<open>shutil.rmtree(path)\<close> removes the directory and everything below it, and raises
  when \<open>path\<close> is not a directory.
\<close>

definition below :: "string \<Rightarrow> string \<Rightarrow> bool" where
  "below path q = (q = path \<or> prefix (path @ ''/'') q)"

definition rmtree :: "string \<Rightarrow> world \<Rightarrow> unit result \<times> world" where
  "rmtree path w =
     (if map_of (entries w) path = Some Dir
      then (Inr (), w\<lparr>entries := filter (\<lambda>e. \<not> below path (fst e)) (entries w)\<rparr>)
      else (Inl OSError, w))"

text \<open>
  Modelled from the spec: \<^verbatim>\<open>compat.write_json\<close> and \<^verbatim>\<open>compat.read_json\<close> are in
  the module \<^verbatim>\<open>compat\<close>, which is not among the sources. The spec has them as the
  primitives ``serialize value to file as structured data'' and ``read and parse'' a
  structured output file: writing puts the document at the path, in place of what was
  there; reading gives the document back, and fails when no file is at the path.
\<close>

definition write_json :: "json \<Rightarrow> string \<Rightarrow> world \<Rightarrow> world" where
  "write_json obj path w =
     w\<lparr>entries := (path, File obj) # filter (\<lambda>e. fst e \<noteq> path) (entries w)\<rparr>"

definition read_json :: "string \<Rightarrow> world \<Rightarrow> json result" where
  "read_json path w =
     (case map_of (entries w) path of
        Some (File v) \<Rightarrow> Inr v
      | _ \<Rightarrow> Inl IOError)"

text \<open>
  The context manager \<^verbatim>\<open>tempdir\<close> with the body of its \<^verbatim>\<open>with\<close> statement: the body
  runs at the \<^verbatim>\<open>yield\<close>, inside \<^verbatim>\<open>try\<close>, so \<^verbatim>\<open>rmtree\<close> runs however the body ends;
  an exception of \<^verbatim>\<open>rmtree\<close> replaces the body's outcome.
\<close>

definition tempdir :: "(string \<Rightarrow> world \<Rightarrow> 'a result \<times> world) \<Rightarrow> world \<Rightarrow> 'a result \<times> world" where
  "tempdir body w =
     (let (td, w1) = mkdtemp w;
          (r, w2) = body td w1;
          (c, w3) = rmtree td w2
      in (case c of Inl e \<Rightarrow> (Inl e, w3) | Inr _ \<Rightarrow> (r, w3)))"

section \<open>The default subprocess runner\<close>

text \<open>
  Dictionaries are objects: \<^verbatim>\<open>copy\<close> makes a new one at a new address, \<^verbatim>\<open>update\<close>
  changes the one at the address it is called on.
\<close>

definition os_environ :: nat where
  "os_environ = 0"

definition dict_copy :: "nat \<Rightarrow> world \<Rightarrow> nat \<times> world" where
  "dict_copy a w =
     (let b = Suc (dict_top w)
      in (b, w\<lparr>dict_heap := (dict_heap w)(b := dict_heap w a), dict_top := b\<rparr>))"

definition dict_update :: "nat \<Rightarrow> environ \<Rightarrow> world \<Rightarrow> world" where
  "dict_update a m w = w\<lparr>dict_heap := (dict_heap w)(a := dict_heap w a ++ m)\<rparr>"

text \<open>
  \<^verbatim>\<open>subprocess.check_call(cmd, cwd=cwd, env=env)\<close>: runs the child with the items of the
  dictionary at \<open>env\<close>, waits, and raises \<^verbatim>\<open>CalledProcessError\<close> with the exit status
  and the command when the status is not zero. A child that cannot be started is the
  operating system's error.
\<close>

definition check_call :: "string list \<Rightarrow> string option \<Rightarrow> nat \<Rightarrow> world \<Rightarrow> unit result \<times> world" where
  "check_call cmd cwd env w =
     (let (r, fs) = spawn w cmd cwd (dict_heap w env) (entries w);
          w' = w\<lparr>entries := fs\<rparr>
      in (case r of
            Inl e \<Rightarrow> (Inl e, w')
          | Inr retcode \<Rightarrow>
              if retcode \<noteq> 0 then (Inl (CalledProcessError retcode cmd), w')
              else (Inr (), w')))"

definition default_subprocess_runner :: runner where
  "default_subprocess_runner cmd cwd extra_environ w =
     (let (env, w1) = dict_copy os_environ w;
          w2 = (case extra_environ of
                  None \<Rightarrow> w1
                | Some m \<Rightarrow> if m \<noteq> Map.empty then dict_update env m w1 else w1)
      in check_call cmd cwd env w2)"

section \<open>The hook caller\<close>

text \<open>
  The attributes of a \<^verbatim>\<open>Pep517HookCaller\<close>; \<open>subprocess_runner_attr\<close> is the attribute
  \<^verbatim>\<open>_subprocess_runner\<close>, and \<open>backend_path\<close> is \<^verbatim>\<open>None\<close> or a list.
\<close>

record Pep517HookCaller =
  source_dir :: string
  build_backend :: string
  backend_path :: "string list option"
  subprocess_runner_attr :: runner

text \<open>
  The list comprehension of the constructor: the entries are checked in order, and the
  first exception ends it.
\<close>

fun norm_and_check_each :: "world \<Rightarrow> string \<Rightarrow> string list \<Rightarrow> string list result" where
  "norm_and_check_each w source_tree [] = Inr []"
| "norm_and_check_each w source_tree (p # ps) =
     (case norm_and_check w source_tree p of
        Inl e \<Rightarrow> Inl e
      | Inr q \<Rightarrow>
          (case norm_and_check_each w source_tree ps of
             Inl e \<Rightarrow> Inl e
           | Inr qs \<Rightarrow> Inr (q # qs)))"

text \<open>
  \<^verbatim>\<open>Pep517HookCaller.__init__\<close>. \<^verbatim>\<open>if backend_path:\<close> holds for a list with an entry;
  \<^verbatim>\<open>None\<close> and the empty list are stored as they are.
\<close>

definition init ::
  "world \<Rightarrow> string \<Rightarrow> string \<Rightarrow> string list option \<Rightarrow> Pep517HookCaller result" where
  "init w source_dir' build_backend' backend_path' =
     (let abs_source = abspath w source_dir'
      in (case backend_path' of
            Some (p # ps) \<Rightarrow>
              (case norm_and_check_each w abs_source (p # ps) of
                 Inl e \<Rightarrow> Inl e
               | Inr qs \<Rightarrow>
                   Inr \<lparr>source_dir = abs_source, build_backend = build_backend',
                        backend_path = Some qs,
                        subprocess_runner_attr = default_subprocess_runner\<rparr>)
          | _ \<Rightarrow>
              Inr \<lparr>source_dir = abs_source, build_backend = build_backend',
                   backend_path = backend_path',
                   subprocess_runner_attr = default_subprocess_runner\<rparr>))"

text \<open>
  The context manager \<^verbatim>\<open>subprocess_runner\<close> with the body of its \<^verbatim>\<open>with\<close> statement.
  The body works on the caller object and the world. It runs at the \<^verbatim>\<open>yield\<close>, and
  an exception of the body is raised there, inside the generator; no \<^verbatim>\<open>try\<close> is around
  the \<^verbatim>\<open>yield\<close>, so the exception leaves the generator and the assignment after the
  \<^verbatim>\<open>yield\<close> runs only when the body returns.
\<close>

definition subprocess_runner ::
  "runner \<Rightarrow> (Pep517HookCaller \<Rightarrow> world \<Rightarrow> 'a result \<times> Pep517HookCaller \<times> world)
     \<Rightarrow> Pep517HookCaller \<Rightarrow> world \<Rightarrow> 'a result \<times> Pep517HookCaller \<times> world" where
  "subprocess_runner runner' body self w =
     (let prev = subprocess_runner_attr self;
          (r, self', w') = body (self\<lparr>subprocess_runner_attr := runner'\<rparr>) w
      in (case r of
            Inl e \<Rightarrow> (Inl e, self', w')
          | Inr v \<Rightarrow> (Inr v, self'\<lparr>subprocess_runner_attr := prev\<rparr>, w')))"

section \<open>Calling a hook\<close>

text \<open>
  Truth of a Python value: \<^verbatim>\<open>None\<close>, \<^verbatim>\<open>False\<close>, zero and the empty string, list
  and dictionary are false.
\<close>

fun truthy :: "json \<Rightarrow> bool" where
  "truthy JNull = False"
| "truthy (JBool b) = b"
| "truthy (JInt i) = (i \<noteq> 0)"
| "truthy (JFloat f) = (f \<noteq> Finite 0)"
| "truthy (JStr s) = (s \<noteq> [])"
| "truthy (JList xs) = (xs \<noteq> [])"
| "truthy (JObj items) = (items \<noteq> [])"

text \<open>\<^verbatim>\<open>data.get(key, default)\<close> on the items of a dictionary.\<close>

definition dict_get :: "(string \<times> json) list \<Rightarrow> string \<Rightarrow> json \<Rightarrow> json" where
  "dict_get items key dflt = (case map_of items key of None \<Rightarrow> dflt | Some v \<Rightarrow> v)"

text \<open>
  \<^verbatim>\<open>s.encode('ASCII')\<close>: the same characters when all are ASCII, an exception otherwise.
\<close>

definition encode_ascii :: "string \<Rightarrow> string result" where
  "encode_ascii s =
     (if list_all (\<lambda>c. (of_char c :: nat) < 128) s then Inr s else Inl UnicodeEncodeError)"

text \<open>
  Lines 185 to 195 of \<^verbatim>\<open>_call_hook\<close>: the environment for the child. On Python 2 the
  two values are encoded to byte strings, which can fail.
\<close>

definition hook_environ :: "world \<Rightarrow> Pep517HookCaller \<Rightarrow> environ result" where
  "hook_environ w self =
     (case (if version_major w = 2 then encode_ascii (build_backend self)
            else Inr (build_backend self)) of
        Inl e \<Rightarrow> Inl e
      | Inr build_backend' \<Rightarrow>
          (let extra_environ = [''PEP517_BUILD_BACKEND'' \<mapsto> build_backend']
           in (case backend_path self of
                 Some (p # ps) \<Rightarrow>
                   (case (if version_major w = 2
                          then filesystem_encode w (str_join pathsep (p # ps))
                          else Inr (str_join pathsep (p # ps))) of
                      Inl e \<Rightarrow> Inl e
                    | Inr backend_path' \<Rightarrow>
                        Inr (extra_environ(''PEP517_BACKEND_PATH'' \<mapsto> backend_path')))
               | _ \<Rightarrow> Inr extra_environ)))"

text \<open>
  Lines 210 to 220: what the output document means. A document that is not a dictionary
  has no \<^verbatim>\<open>get\<close>; a dictionary with no marker and no \<^verbatim>\<open>return_val\<close> is a key error.
\<close>

definition hook_result :: "Pep517HookCaller \<Rightarrow> json \<Rightarrow> json result" where
  "hook_result self data =
     (case data of
        JObj items \<Rightarrow>
          if truthy (dict_get items ''unsupported'' JNull)
            then Inl (UnsupportedOperation (dict_get items ''traceback'' (JStr [])))
          else if truthy (dict_get items ''no_backend'' JNull)
            then Inl (BackendUnavailable (dict_get items ''traceback'' (JStr [])))
          else if truthy (dict_get items ''backend_invalid'' JNull)
            then Inl (BackendInvalid (build_backend self) (backend_path self)
                        (dict_get items ''backend_error'' (JStr [])))
          else (case map_of items ''return_val'' of
                  None \<Rightarrow> Inl (KeyError ''return_val'')
                | Some v \<Rightarrow> Inr v)
      | _ \<Rightarrow> Inl AttributeError)"

text \<open>\<^verbatim>\<open>Pep517HookCaller._call_hook\<close>.\<close>

definition call_hook :: "Pep517HookCaller \<Rightarrow> string \<Rightarrow> json \<Rightarrow> world \<Rightarrow> json result \<times> world" where
  "call_hook self hook_name kwargs w =
     (case hook_environ w self of
        Inl e \<Rightarrow> (Inl e, w)
      | Inr extra_environ \<Rightarrow>
          tempdir (\<lambda>td w1.
            let hook_input = JObj [(''kwargs'', kwargs)];
                w2 = write_json hook_input (pjoin td ''input.json'') w1;
                (r, w3) = subprocess_runner_attr self
                            [executable w, in_proc_script w, hook_name, td]
                            (Some (source_dir self)) (Some extra_environ) w2
            in (case r of
                  Inl e \<Rightarrow> (Inl e, w3)
                | Inr _ \<Rightarrow>
                    (case read_json (pjoin td ''output.json'') w3 of
                       Inl e \<Rightarrow> (Inl e, w3)
                     | Inr data \<Rightarrow> (hook_result self data, w3)))) w)"

text \<open>The five hooks. \<^verbatim>\<open>None\<close> for \<open>config_settings\<close> is \<open>JNull\<close>.\<close>

definition get_requires_for_build_wheel ::
  "Pep517HookCaller \<Rightarrow> json \<Rightarrow> world \<Rightarrow> json result \<times> world" where
  "get_requires_for_build_wheel self config_settings w =
     call_hook self ''get_requires_for_build_wheel''
       (JObj [(''config_settings'', config_settings)]) w"

definition prepare_metadata_for_build_wheel ::
  "Pep517HookCaller \<Rightarrow> string \<Rightarrow> json \<Rightarrow> world \<Rightarrow> json result \<times> world" where
  "prepare_metadata_for_build_wheel self metadata_directory config_settings w =
     call_hook self ''prepare_metadata_for_build_wheel''
       (JObj [(''metadata_directory'', JStr (abspath w metadata_directory)),
              (''config_settings'', config_settings)]) w"

definition build_wheel ::
  "Pep517HookCaller \<Rightarrow> string \<Rightarrow> json \<Rightarrow> string option \<Rightarrow> world \<Rightarrow> json result \<times> world" where
  "build_wheel self wheel_directory config_settings metadata_directory w =
     (let metadata_directory' =
            (case metadata_directory of
               None \<Rightarrow> JNull
             | Some d \<Rightarrow> JStr (abspath w d))
      in call_hook self ''build_wheel''
           (JObj [(''wheel_directory'', JStr (abspath w wheel_directory)),
                  (''config_settings'', config_settings),
                  (''metadata_directory'', metadata_directory')]) w)"

definition get_requires_for_build_sdist ::
  "Pep517HookCaller \<Rightarrow> json \<Rightarrow> world \<Rightarrow> json result \<times> world" where
  "get_requires_for_build_sdist self config_settings w =
     call_hook self ''get_requires_for_build_sdist''
       (JObj [(''config_settings'', config_settings)]) w"

definition build_sdist ::
  "Pep517HookCaller \<Rightarrow> string \<Rightarrow> json \<Rightarrow> world \<Rightarrow> json result \<times> world" where
  "build_sdist self sdist_directory config_settings w =
     call_hook self ''build_sdist''
       (JObj [(''sdist_directory'', JStr (abspath w sdist_directory)),
              (''config_settings'', config_settings)]) w"

section \<open>Runners for stating and testing\<close>

text \<open>
  \<open>run_only_when P run other\<close> is the runner \<open>run\<close> wherever \<open>P\<close> holds of the call (the
  command, the working directory, the environment overlay and the world at that moment),
  and the runner \<open>other\<close> elsewhere. A hook call that cannot tell it from \<open>run\<close>, whatever
  \<open>other\<close> is, starts its runner only in calls of which \<open>P\<close> holds.
\<close>

definition run_only_when ::
  "(string list \<Rightarrow> string option \<Rightarrow> environ option \<Rightarrow> world \<Rightarrow> bool) \<Rightarrow> runner \<Rightarrow> runner \<Rightarrow> runner" where
  "run_only_when P run other cmd cwd extra_environ w =
     (if P cmd cwd extra_environ w then run cmd cwd extra_environ w
      else other cmd cwd extra_environ w)"

text \<open>
  What is true of a runner's call when the command names the hook and the scratch
  directory of the call, and the file \<^verbatim>\<open>input.json\<close> in that directory holds exactly the
  object with the one key \<^verbatim>\<open>kwargs\<close> and the given arguments.
\<close>

definition input_written ::
  "world \<Rightarrow> string \<Rightarrow> json \<Rightarrow> string list \<Rightarrow> string option \<Rightarrow> environ option \<Rightarrow> world \<Rightarrow> bool" where
  "input_written w hook_name kwargs cmd cwd extra_environ v =
     (cmd = [executable w, in_proc_script w, hook_name, fst (mkdtemp w)]
      \<and> map_of (entries v) (pjoin (fst (mkdtemp w)) ''input.json'')
          = Some (File (JObj [(''kwargs'', kwargs)])))"

text \<open>
  A backend stub: a runner that writes the given document to \<^verbatim>\<open>output.json\<close> in the
  directory named last on its command line, and returns.
\<close>

definition backend_stub :: "json \<Rightarrow> runner" where
  "backend_stub data cmd cwd extra_environ w =
     (case cmd of
        [exe, script, hook_name, td] \<Rightarrow> (Inr (), write_json data (pjoin td ''output.json'') w)
      | _ \<Rightarrow> (Inl (PyException ''usage''), w))"

text \<open>
  A backend that reports what it was given: a runner that reads \<^verbatim>\<open>input.json\<close> in the
  directory named last on its command line and answers, in \<^verbatim>\<open>output.json\<close> there, with
  the hook name of its command line and the document it read. It raises when no input
  file is there.
\<close>

definition input_probe :: runner where
  "input_probe cmd cwd extra_environ w =
     (case cmd of
        [exe, script, hook_name, td] \<Rightarrow>
          (case read_json (pjoin td ''input.json'') w of
             Inl e \<Rightarrow> (Inl e, w)
           | Inr doc \<Rightarrow>
               (Inr (),
                write_json (JObj [(''return_val'', JList [JStr hook_name, doc])])
                  (pjoin td ''output.json'') w))
      | _ \<Rightarrow> (Inl (PyException ''usage''), w))"

text \<open>A runner that raises the given exception and changes nothing.\<close>

definition failing_runner :: "error \<Rightarrow> runner" where
  "failing_runner e cmd cwd extra_environ w = (Inl e, w)"

text \<open>
  A world to test in: Python 3 in \<^verbatim>\<open>/home/user\<close>, an empty file system, an empty
  environment, and an operating system whose children all end with status 1.
\<close>

definition example_world :: world where
  "example_world =
     \<lparr>getcwd = ''/home/user'', entries = [], dict_heap = (\<lambda>a. Map.empty), dict_top = 0,
      spawn = (\<lambda>cmd cwd env fs. (Inr 1, fs)), version_major = 3,
      executable = ''/usr/bin/python'', in_proc_script = ''/lib/pep517/_in_process.py'',
      filesystem_encode = Inr\<rparr>"

definition example_caller :: "json \<Rightarrow> Pep517HookCaller" where
  "example_caller data =
     \<lparr>source_dir = ''/proj'', build_backend = ''setuptools.build_meta'', backend_path = None,
      subprocess_runner_attr = backend_stub data\<rparr>"

section \<open>The path validator and the constructor\<close>

lemma abspath_proj: "abspath w ''/proj'' = ''/proj''"
  by (simp add: abspath_def normpath_def isabs_def initial_slashes_def)

lemma norm_and_check_proj2: "norm_and_check w ''/proj'' ''../proj2'' = Inr ''/proj2''"
  by (simp add: norm_and_check_def abspath_def normpath_def isabs_def pjoin_def
      initial_slashes_def normcase_def)

lemma proj2_outside_proj: "\<not> inside_tree ''/proj'' ''/proj2''"
  by (simp add: inside_tree_def components_def)

text \<open>What the validator does decide: an absolute request is refused, and an accepted
  path is the normalised join, and starts with the characters of the tree's path.\<close>

lemma norm_and_check_absolute:
  "isabs requested \<Longrightarrow> norm_and_check w tree requested = Inl (ValueError ''paths must be relative'')"
  by (simp add: norm_and_check_def)

lemma common_chars_eq: "common_chars a b = a \<longleftrightarrow> prefix a b"
  by (induction a b rule: common_chars.induct) auto

lemma norm_and_check_accepted:
  "norm_and_check w tree requested = Inr p \<Longrightarrow>
     \<not> isabs requested \<and> p = normpath (pjoin (abspath w tree) requested)
     \<and> prefix (abspath w tree) p"
  by (auto simp: norm_and_check_def Let_def normcase_def common_chars_eq split: if_splits)

lemma norm_and_check_etc:
  "norm_and_check w ''/proj'' ''../../etc'' = Inl (ValueError ''paths must be inside source tree'')"
  by (simp add: norm_and_check_def abspath_def normpath_def isabs_def pjoin_def
      initial_slashes_def normcase_def)

text \<open>
  C1. The validator is to fail whenever the normalised resolution of the request is not
  in the tree of the root, and the claim names \<^verbatim>\<open>../proj2\<close> against the root
  \<^verbatim>\<open>/proj\<close>. There the code returns \<^verbatim>\<open>/proj2\<close>, which is not in the tree of
  \<^verbatim>\<open>/proj\<close>: the comparison is on characters, and \<^verbatim>\<open>/proj\<close> starts \<^verbatim>\<open>/proj2\<close>.
\<close>

theorem norm_and_check_accepts_sibling:
  "norm_and_check w ''/proj'' ''../proj2'' = Inr ''/proj2''
   \<and> \<not> inside_tree ''/proj'' ''/proj2''"
  by (simp add: norm_and_check_proj2 proj2_outside_proj)

text \<open>
  C5. The constructor is to fail when an entry of the backend path escapes the project
  root. With the source directory \<^verbatim>\<open>/proj\<close> and the backend path \<^verbatim>\<open>["../proj2"]\<close> it
  returns a caller whose backend path is \<^verbatim>\<open>["/proj2"]\<close>, outside the project.
\<close>

theorem init_accepts_sibling:
  "init w ''/proj'' b (Some [''../proj2'']) =
     Inr \<lparr>source_dir = ''/proj'', build_backend = b, backend_path = Some [''/proj2''],
          subprocess_runner_attr = default_subprocess_runner\<rparr>
   \<and> \<not> inside_tree ''/proj'' ''/proj2''"
  by (simp add: init_def abspath_proj norm_and_check_proj2 proj2_outside_proj)

text \<open>The rest of what C5 says holds: the entries are checked in the constructor, an
  absolute entry fails it, and what is stored is what the validator returned.\<close>

lemma norm_and_check_each_absolute:
  "p \<in> set ps \<Longrightarrow> isabs p \<Longrightarrow> \<exists>e. norm_and_check_each w tree ps = Inl e"
  by (induction ps) (auto simp: norm_and_check_absolute split: sum.splits)

lemma norm_and_check_each_accepted:
  "norm_and_check_each w tree ps = Inr qs \<Longrightarrow>
     qs = map (\<lambda>p. normpath (pjoin (abspath w tree) p)) ps"
  by (induction ps arbitrary: qs) (auto split: sum.splits dest: norm_and_check_accepted)

lemma init_absolute_entry:
  "p \<in> set ps \<Longrightarrow> isabs p \<Longrightarrow> \<exists>e. init w d b (Some ps) = Inl e"
  using norm_and_check_each_absolute [of p ps w "abspath w d"]
  by (cases ps) (auto simp: init_def)

lemma init_outside_example:
  "init w ''/proj'' b (Some [''../outside'']) = Inl (ValueError ''paths must be inside source tree'')"
proof -
  have "norm_and_check w ''/proj'' ''../outside'' = Inl (ValueError ''paths must be inside source tree'')"
    by (simp add: norm_and_check_def abspath_def normpath_def isabs_def pjoin_def
        initial_slashes_def normcase_def)
  then show ?thesis
    by (simp add: init_def abspath_proj)
qed

section \<open>The scoped override of the runner\<close>

lemma subprocess_runner_returns:
  "body (self\<lparr>subprocess_runner_attr := r\<rparr>) w = (Inr v, self', w') \<Longrightarrow>
     subprocess_runner r body self w
       = (Inr v, self'\<lparr>subprocess_runner_attr := subprocess_runner_attr self\<rparr>, w')"
  by (simp add: subprocess_runner_def)

lemma subprocess_runner_raises:
  "body (self\<lparr>subprocess_runner_attr := r\<rparr>) w = (Inl e, self', w') \<Longrightarrow>
     subprocess_runner r body self w = (Inl e, self', w')"
  by (simp add: subprocess_runner_def)

section \<open>One hook call\<close>

lemma hook_environ_runner [simp]:
  "hook_environ w (self\<lparr>subprocess_runner_attr := r\<rparr>) = hook_environ w self"
  by (simp add: hook_environ_def Let_def split: sum.split option.split list.split)

lemma hook_result_runner [simp]:
  "hook_result (self\<lparr>subprocess_runner_attr := r\<rparr>) data = hook_result self data"
  by (cases data) (simp_all add: hook_result_def)

text \<open>A runner that is replaced outside the calls the hook call makes is not told apart.\<close>

lemma call_hook_run_only_when:
  assumes "\<And>env td w1. hook_environ w self = Inr env \<Longrightarrow> mkdtemp w = (td, w1) \<Longrightarrow>
     P [executable w, in_proc_script w, hook_name, td] (Some (source_dir self)) (Some env)
       (write_json (JObj [(''kwargs'', kwargs)]) (pjoin td ''input.json'') w1)"
  shows "call_hook (self\<lparr>subprocess_runner_attr :=
                      run_only_when P (subprocess_runner_attr self) other\<rparr>) hook_name kwargs w
         = call_hook self hook_name kwargs w"
proof (cases "hook_environ w self")
  case (Inl e)
  then show ?thesis by (simp add: call_hook_def)
next
  case (Inr env)
  obtain td w1 where tmp: "mkdtemp w = (td, w1)" by (cases "mkdtemp w")
  from assms [OF Inr tmp] show ?thesis
    by (simp add: call_hook_def Inr tempdir_def tmp run_only_when_def
          split: prod.split sum.split)
qed

lemma rmtree_gone: "map_of (entries (snd (rmtree p v))) p \<noteq> Some Dir"
proof (cases "map_of (entries v) p = Some Dir")
  case True
  have "p \<notin> fst ` set (filter (\<lambda>e. \<not> below p (fst e)) (entries v))"
    by (auto simp: below_def)
  then have "map_of (filter (\<lambda>e. \<not> below p (fst e)) (entries v)) p = None"
    by (simp add: map_of_eq_None_iff)
  with True show ?thesis by (simp add: rmtree_def)
next
  case False
  then show ?thesis by (simp add: rmtree_def)
qed

lemma tempdir_world:
  "mkdtemp w = (td, w1) \<Longrightarrow> snd (tempdir body w) = snd (rmtree td (snd (body td w1)))"
  by (simp add: tempdir_def split: prod.splits sum.splits)

lemma key_length_bound:
  "e \<in> set fs \<Longrightarrow> length (fst e) \<le> foldr (\<lambda>e n. max (length (fst e)) n) fs 0"
  by (induction fs) auto

lemma fresh_name_new: "map_of fs (fresh_name fs) = None"
proof -
  have "fresh_name fs \<notin> fst ` set fs"
  proof
    assume "fresh_name fs \<in> fst ` set fs"
    then obtain e where e: "e \<in> set fs" "fst e = fresh_name fs" by auto
    from key_length_bound [OF e(1)] e(2) show False
      by (simp add: fresh_name_def)
  qed
  then show ?thesis by (simp add: map_of_eq_None_iff)
qed

text \<open>
  C3. The scratch directory of a hook call is the one \<^verbatim>\<open>mkdtemp\<close> makes in the world
  the call starts in. It was not there before, it is a directory once made, and it is no
  directory in the world the call leaves, whatever the runner does and however the call
  ends: with a value, with one of the three failures read from the output, with an
  exception of the runner or with any other.
\<close>

theorem call_hook_removes_scratch_directory:
  "map_of (entries w) (fst (mkdtemp w)) = None
   \<and> map_of (entries (snd (mkdtemp w))) (fst (mkdtemp w)) = Some Dir
   \<and> map_of (entries (snd (call_hook self hook_name kwargs w))) (fst (mkdtemp w)) \<noteq> Some Dir"
proof -
  obtain td w1 where tmp: "mkdtemp w = (td, w1)" by (cases "mkdtemp w")
  have new: "map_of (entries w) td = None"
    using tmp by (auto simp: mkdtemp_def Let_def fresh_name_new)
  have made: "map_of (entries w1) td = Some Dir"
    using tmp by (auto simp: mkdtemp_def Let_def)
  have "map_of (entries (snd (call_hook self hook_name kwargs w))) td \<noteq> Some Dir"
  proof (cases "hook_environ w self")
    case (Inl e)
    then show ?thesis using new by (simp add: call_hook_def)
  next
    case (Inr env)
    then show ?thesis
      by (simp add: call_hook_def tempdir_world [OF tmp] rmtree_gone)
  qed
  with new made tmp show ?thesis by simp
qed

lemma call_hook_failing_runner:
  "subprocess_runner_attr self = failing_runner e \<Longrightarrow>
     \<exists>e'. fst (call_hook self hook_name kwargs w) = Inl e'"
  by (cases "hook_environ w self")
     (auto simp: call_hook_def tempdir_def failing_runner_def Let_def
           split: prod.splits sum.splits)

text \<open>
  C2. The override is to be undone on every exit of the scope, also when the body
  raises. In the code nothing after the \<^verbatim>\<open>yield\<close> runs when the body raises: a body that
  raises \<open>e\<close> at once, and a body that calls a hook through an override that raises, both
  leave the override installed in the caller.
\<close>

theorem subprocess_runner_kept_after_exception:
  "subprocess_runner r (\<lambda>s v. (Inl e, s, v)) self w
     = (Inl e, self\<lparr>subprocess_runner_attr := r\<rparr>, w)
   \<and> fst (snd (subprocess_runner (failing_runner e)
        (\<lambda>s v. (fst (call_hook s hook_name kwargs v), s, snd (call_hook s hook_name kwargs v)))
        self w))
     = self\<lparr>subprocess_runner_attr := failing_runner e\<rparr>"
proof -
  obtain e' where
    "fst (call_hook (self\<lparr>subprocess_runner_attr := failing_runner e\<rparr>) hook_name kwargs w) = Inl e'"
    using call_hook_failing_runner
      [of "self\<lparr>subprocess_runner_attr := failing_runner e\<rparr>" e hook_name kwargs w]
    by auto
  then show ?thesis
    by (simp add: subprocess_runner_def)
qed

text \<open>What a hook call returns when its runner returns and leaves a document.\<close>

lemma call_hook_outcome:
  assumes env: "hook_environ w self = Inr env" and tmp: "mkdtemp w = (td, w1)"
    and run: "subprocess_runner_attr self [executable w, in_proc_script w, hook_name, td]
                (Some (source_dir self)) (Some env)
                (write_json (JObj [(''kwargs'', kwargs)]) (pjoin td ''input.json'') w1)
              = (Inr (), w3)"
    and dir: "map_of (entries w3) td = Some Dir"
    and out: "read_json (pjoin td ''output.json'') w3 = Inr data"
  shows "fst (call_hook self hook_name kwargs w) = hook_result self data"
  using dir by (simp add: call_hook_def env tempdir_def tmp run out rmtree_def)

lemma map_of_filter_other:
  "k \<noteq> path \<Longrightarrow> map_of (filter (\<lambda>e. fst e \<noteq> path) es) k = map_of es k"
  by (induction es) auto

lemma map_of_filter_same: "map_of (filter (\<lambda>e. fst e \<noteq> path) es) path = None"
  by (induction es) auto

lemma pjoin_longer: "\<not> isabs b \<Longrightarrow> b \<noteq> [] \<Longrightarrow> pjoin td b \<noteq> td"
  by (simp add: pjoin_def)

lemma mkdtemp_made: "mkdtemp w = (td, w1) \<Longrightarrow> map_of (entries w1) td = Some Dir"
  by (auto simp: mkdtemp_def Let_def)

lemma write_json_other:
  "k \<noteq> path \<Longrightarrow> map_of (entries (write_json obj path v)) k = map_of (entries v) k"
  by (simp add: write_json_def map_of_filter_other)

lemma read_json_written: "read_json path (write_json obj path v) = Inr obj"
  by (simp add: read_json_def write_json_def)

lemma call_hook_backend_stub:
  assumes env: "hook_environ w self = Inr env"
  shows "fst (call_hook (self\<lparr>subprocess_runner_attr := backend_stub data\<rparr>) hook_name kwargs w)
         = hook_result self data"
proof -
  obtain td w1 where tmp: "mkdtemp w = (td, w1)" by (cases "mkdtemp w")
  let ?self = "self\<lparr>subprocess_runner_attr := backend_stub data\<rparr>"
  let ?w2 = "write_json (JObj [(''kwargs'', kwargs)]) (pjoin td ''input.json'') w1"
  let ?w3 = "write_json data (pjoin td ''output.json'') ?w2"
  have env': "hook_environ w ?self = Inr env" using env by simp
  have run: "subprocess_runner_attr ?self [executable w, in_proc_script w, hook_name, td]
                (Some (source_dir ?self)) (Some env) ?w2 = (Inr (), ?w3)"
    by (simp add: backend_stub_def)
  have dir: "map_of (entries ?w3) td = Some Dir"
    using mkdtemp_made [OF tmp]
    by (simp add: write_json_other pjoin_longer [symmetric] isabs_def)
  have out: "read_json (pjoin td ''output.json'') ?w3 = Inr data"
    by (rule read_json_written)
  from call_hook_outcome [OF env' tmp run dir out] show ?thesis by simp
qed

lemma example_environ:
  "hook_environ example_world (example_caller data)
     = Inr [''PEP517_BUILD_BACKEND'' \<mapsto> ''setuptools.build_meta'']"
  by (simp add: hook_environ_def example_world_def example_caller_def)

text \<open>
  C4. Let the environment be built, let \<open>td\<close> be the scratch directory, and let the
  runner return and leave the directory with a dictionary \<open>items\<close> in \<^verbatim>\<open>output.json\<close>.
  Then the call ends by the first of these that applies: \<^verbatim>\<open>unsupported\<close> is true, and
  \<^verbatim>\<open>UnsupportedOperation\<close> is raised with the traceback of the document; \<^verbatim>\<open>no_backend\<close>
  is true, and \<^verbatim>\<open>BackendUnavailable\<close> is raised with the traceback;
  \<^verbatim>\<open>backend_invalid\<close> is true, and \<^verbatim>\<open>BackendInvalid\<close> is raised with the caller's
  backend, its backend path and the message of the document; otherwise the value under
  \<^verbatim>\<open>return_val\<close> is returned as it is (and a document without it is a key error).
\<close>

theorem call_hook_classifies_output:
  assumes env: "hook_environ w self = Inr env" and tmp: "mkdtemp w = (td, w1)"
    and run: "subprocess_runner_attr self [executable w, in_proc_script w, hook_name, td]
                (Some (source_dir self)) (Some env)
                (write_json (JObj [(''kwargs'', kwargs)]) (pjoin td ''input.json'') w1)
              = (Inr (), w3)"
    and dir: "map_of (entries w3) td = Some Dir"
    and out: "read_json (pjoin td ''output.json'') w3 = Inr (JObj items)"
  shows "fst (call_hook self hook_name kwargs w) =
     (if truthy (dict_get items ''unsupported'' JNull)
        then Inl (UnsupportedOperation (dict_get items ''traceback'' (JStr [])))
      else if truthy (dict_get items ''no_backend'' JNull)
        then Inl (BackendUnavailable (dict_get items ''traceback'' (JStr [])))
      else if truthy (dict_get items ''backend_invalid'' JNull)
        then Inl (BackendInvalid (build_backend self) (backend_path self)
                    (dict_get items ''backend_error'' (JStr [])))
      else (case map_of items ''return_val'' of
              None \<Rightarrow> Inl (KeyError ''return_val'')
            | Some v \<Rightarrow> Inr v))"
  using call_hook_outcome [OF env tmp run dir out] by (simp add: hook_result_def)

theorem call_hook_classifies_output_witness:
  "fst (call_hook (example_caller (JObj [(''return_val'', JList [JStr ''setuptools>=26''])]))
         ''get_requires_for_build_sdist'' (JObj [(''config_settings'', JNull)]) example_world)
     = Inr (JList [JStr ''setuptools>=26''])"
proof -
  let ?data = "JObj [(''return_val'', JList [JStr ''setuptools>=26''])]"
  let ?self = "example_caller ?data"
  let ?w = example_world
  let ?td = "fst (mkdtemp ?w)"
  let ?w2 = "write_json (JObj [(''kwargs'', JObj [(''config_settings'', JNull)])])
               (pjoin ?td ''input.json'') (snd (mkdtemp ?w))"
  let ?w3 = "write_json ?data (pjoin ?td ''output.json'') ?w2"
  have tmp: "mkdtemp ?w = (?td, snd (mkdtemp ?w))" by simp
  have run: "subprocess_runner_attr ?self
               [executable ?w, in_proc_script ?w, ''get_requires_for_build_sdist'', ?td]
               (Some (source_dir ?self))
               (Some [''PEP517_BUILD_BACKEND'' \<mapsto> ''setuptools.build_meta'']) ?w2
             = (Inr (), ?w3)"
    by (simp add: example_caller_def backend_stub_def)
  have dir: "map_of (entries ?w3) ?td = Some Dir"
    using mkdtemp_made [OF tmp]
    by (simp add: write_json_other pjoin_longer [symmetric] isabs_def)
  have out: "read_json (pjoin ?td ''output.json'') ?w3
               = Inr (JObj [(''return_val'', JList [JStr ''setuptools>=26''])])"
    by (rule read_json_written)
  from call_hook_classifies_output [OF example_environ tmp run dir out] show ?thesis
    by (simp add: dict_get_def)
qed


text \<open>
  C7. The default runner leaves the dictionary \<^verbatim>\<open>os.environ\<close> as it was. The
  environment of the child has, for every name, the value of \<open>extra_environ\<close> when that
  has one, and the value of \<^verbatim>\<open>os.environ\<close> otherwise. A child that ran makes the
  runner raise \<^verbatim>\<open>CalledProcessError\<close> exactly when its exit status is not zero.
\<close>

theorem default_subprocess_runner_environment:
  "dict_heap (snd (default_subprocess_runner cmd cwd extra_environ w)) os_environ
     = dict_heap w os_environ
   \<and> fst (default_subprocess_runner cmd cwd extra_environ w) =
     (case fst (spawn w cmd cwd
                 (\<lambda>k. case (case extra_environ of None \<Rightarrow> None | Some m \<Rightarrow> m k) of
                         Some v \<Rightarrow> Some v
                       | None \<Rightarrow> dict_heap w os_environ k)
                 (entries w)) of
        Inl e \<Rightarrow> Inl e
      | Inr status \<Rightarrow> if status = 0 then Inr () else Inl (CalledProcessError status cmd))"
proof -
  have env: "(\<lambda>k. case (case extra_environ of None \<Rightarrow> None | Some m \<Rightarrow> m k) of
                     Some v \<Rightarrow> Some v
                   | None \<Rightarrow> dict_heap w os_environ k)
             = (case extra_environ of
                  None \<Rightarrow> dict_heap w os_environ
                | Some m \<Rightarrow> if m \<noteq> Map.empty then dict_heap w os_environ ++ m
                            else dict_heap w os_environ)"
    by (auto simp: map_add_def fun_eq_iff split: option.splits)
  show ?thesis
    unfolding env
    by (cases extra_environ)
       (auto simp: default_subprocess_runner_def dict_copy_def dict_update_def check_call_def
             os_environ_def Let_def split: prod.splits sum.splits)
qed

section \<open>The input file of the five hooks\<close>

lemma isabs_slashes: "0 < i \<Longrightarrow> isabs (replicate i CHR ''/'' @ x)"
  by (cases i) (simp_all add: isabs_def)

lemma initial_slashes_pos: "isabs q \<Longrightarrow> 0 < initial_slashes q"
  by (simp add: initial_slashes_def)

lemma isabs_normpath: "isabs q \<Longrightarrow> isabs (normpath q)"
proof -
  assume q: "isabs q"
  then have "q \<noteq> []" by (auto simp: isabs_def)
  moreover have "replicate (initial_slashes q) CHR ''/'' @ x \<noteq> []" for x
    using initial_slashes_pos [OF q] by (cases "initial_slashes q") simp_all
  ultimately show ?thesis
    using initial_slashes_pos [OF q] isabs_slashes [OF initial_slashes_pos [OF q]]
    by (simp add: normpath_def Let_def)
qed

lemma abspath_absolute: "isabs (getcwd w) \<Longrightarrow> isabs (abspath w p)"
  unfolding abspath_def
  by (rule isabs_normpath) (auto simp: pjoin_def isabs_def split: list.splits)

lemma call_hook_input_written:
  "call_hook (self\<lparr>subprocess_runner_attr :=
                run_only_when (input_written w hook_name kwargs)
                  (subprocess_runner_attr self) other\<rparr>) hook_name kwargs w
   = call_hook self hook_name kwargs w"
  by (rule call_hook_run_only_when) (simp add: input_written_def write_json_def)

lemma abspath_dist: "abspath example_world ''dist'' = ''/home/user/dist''"
  by (simp add: abspath_def example_world_def isabs_def pjoin_def normpath_def
      initial_slashes_def)

text \<open>
  The runner is started, and the input file is there when it starts: a backend that
  reports what it was given reports the hook name and the object with the one key
  \<^verbatim>\<open>kwargs\<close>; and a runner that raises where \<open>input_written\<close> holds, and does anything
  elsewhere, makes the call raise.
\<close>

lemma call_hook_input_probe:
  assumes env: "hook_environ w self = Inr env"
  shows "fst (call_hook (self\<lparr>subprocess_runner_attr := input_probe\<rparr>) hook_name kwargs w)
         = Inr (JList [JStr hook_name, JObj [(''kwargs'', kwargs)]])"
proof -
  obtain td w1 where tmp: "mkdtemp w = (td, w1)" by (cases "mkdtemp w")
  let ?self = "self\<lparr>subprocess_runner_attr := input_probe\<rparr>"
  let ?w2 = "write_json (JObj [(''kwargs'', kwargs)]) (pjoin td ''input.json'') w1"
  let ?answer = "JObj [(''return_val'', JList [JStr hook_name, JObj [(''kwargs'', kwargs)]])]"
  let ?w3 = "write_json ?answer (pjoin td ''output.json'') ?w2"
  have env': "hook_environ w ?self = Inr env" using env by simp
  have run: "subprocess_runner_attr ?self [executable w, in_proc_script w, hook_name, td]
                (Some (source_dir ?self)) (Some env) ?w2 = (Inr (), ?w3)"
    by (simp add: input_probe_def read_json_written)
  have dir: "map_of (entries ?w3) td = Some Dir"
    using mkdtemp_made [OF tmp]
    by (simp add: write_json_other pjoin_longer [symmetric] isabs_def)
  have out: "read_json (pjoin td ''output.json'') ?w3 = Inr ?answer"
    by (rule read_json_written)
  from call_hook_outcome [OF env' tmp run dir out] show ?thesis
    by (simp add: hook_result_def dict_get_def)
qed

lemma call_hook_started:
  assumes env: "hook_environ w self = Inr env"
  shows "fst (call_hook (self\<lparr>subprocess_runner_attr :=
                run_only_when (input_written w hook_name kwargs) (failing_runner e) other\<rparr>)
              hook_name kwargs w) = Inl e"
proof -
  obtain td w1 where tmp: "mkdtemp w = (td, w1)" by (cases "mkdtemp w")
  let ?w2 = "write_json (JObj [(''kwargs'', kwargs)]) (pjoin td ''input.json'') w1"
  have dir: "map_of (entries ?w2) td = Some Dir"
    using mkdtemp_made [OF tmp]
    by (simp add: write_json_other pjoin_longer [symmetric] isabs_def)
  have P: "input_written w hook_name kwargs [executable w, in_proc_script w, hook_name, td]
             (Some (source_dir self)) (Some env) ?w2"
    using tmp by (simp add: input_written_def write_json_def)
  show ?thesis
    using dir P
    by (simp add: call_hook_def env tempdir_def tmp run_only_when_def failing_runner_def
        rmtree_def)
qed

text \<open>
  C8. In a process whose working directory is an absolute path, each of the five hooks
  starts its runner only when \<^verbatim>\<open>input.json\<close> in the scratch directory holds exactly the
  object with the key \<^verbatim>\<open>kwargs\<close> and the hook's arguments, in which every directory
  argument is the absolute path \<^verbatim>\<open>abspath\<close> gives (the metadata directory of
  \<^verbatim>\<open>build_wheel\<close> is \<^verbatim>\<open>None\<close> when it is not given) and \<open>config_settings\<close> is the value
  the hook was called with. And each hook does start its runner with that file written,
  once the environment is built: a backend that reports the hook name and the input
  document it finds in the directory of its command line makes the hook return exactly
  the hook's name and that object.
\<close>

theorem hooks_write_input_file:
  assumes cwd: "isabs (getcwd w)"
  shows
   "get_requires_for_build_wheel
      (self\<lparr>subprocess_runner_attr :=
         run_only_when
           (input_written w ''get_requires_for_build_wheel''
              (JObj [(''config_settings'', config_settings)]))
           (subprocess_runner_attr self) other\<rparr>) config_settings w
    = get_requires_for_build_wheel self config_settings w
  \<and> prepare_metadata_for_build_wheel
      (self\<lparr>subprocess_runner_attr :=
         run_only_when
           (input_written w ''prepare_metadata_for_build_wheel''
              (JObj [(''metadata_directory'', JStr (abspath w metadata_directory)),
                     (''config_settings'', config_settings)]))
           (subprocess_runner_attr self) other\<rparr>) metadata_directory config_settings w
    = prepare_metadata_for_build_wheel self metadata_directory config_settings w
  \<and> build_wheel
      (self\<lparr>subprocess_runner_attr :=
         run_only_when
           (input_written w ''build_wheel''
              (JObj [(''wheel_directory'', JStr (abspath w wheel_directory)),
                     (''config_settings'', config_settings),
                     (''metadata_directory'', JNull)]))
           (subprocess_runner_attr self) other\<rparr>) wheel_directory config_settings None w
    = build_wheel self wheel_directory config_settings None w
  \<and> build_wheel
      (self\<lparr>subprocess_runner_attr :=
         run_only_when
           (input_written w ''build_wheel''
              (JObj [(''wheel_directory'', JStr (abspath w wheel_directory)),
                     (''config_settings'', config_settings),
                     (''metadata_directory'', JStr (abspath w metadata_directory))]))
           (subprocess_runner_attr self) other\<rparr>)
      wheel_directory config_settings (Some metadata_directory) w
    = build_wheel self wheel_directory config_settings (Some metadata_directory) w
  \<and> get_requires_for_build_sdist
      (self\<lparr>subprocess_runner_attr :=
         run_only_when
           (input_written w ''get_requires_for_build_sdist''
              (JObj [(''config_settings'', config_settings)]))
           (subprocess_runner_attr self) other\<rparr>) config_settings w
    = get_requires_for_build_sdist self config_settings w
  \<and> build_sdist
      (self\<lparr>subprocess_runner_attr :=
         run_only_when
           (input_written w ''build_sdist''
              (JObj [(''sdist_directory'', JStr (abspath w sdist_directory)),
                     (''config_settings'', config_settings)]))
           (subprocess_runner_attr self) other\<rparr>) sdist_directory config_settings w
    = build_sdist self sdist_directory config_settings w
  \<and> isabs (abspath w metadata_directory)
  \<and> isabs (abspath w wheel_directory)
  \<and> isabs (abspath w sdist_directory)
  \<and> (hook_environ w self = Inr env \<longrightarrow>
      fst (get_requires_for_build_wheel (self\<lparr>subprocess_runner_attr := input_probe\<rparr>)
             config_settings w)
        = Inr (JList [JStr ''get_requires_for_build_wheel'',
                      JObj [(''kwargs'', JObj [(''config_settings'', config_settings)])]])
    \<and> fst (prepare_metadata_for_build_wheel (self\<lparr>subprocess_runner_attr := input_probe\<rparr>)
             metadata_directory config_settings w)
        = Inr (JList [JStr ''prepare_metadata_for_build_wheel'',
                      JObj [(''kwargs'',
                             JObj [(''metadata_directory'', JStr (abspath w metadata_directory)),
                                   (''config_settings'', config_settings)])]])
    \<and> fst (build_wheel (self\<lparr>subprocess_runner_attr := input_probe\<rparr>)
             wheel_directory config_settings None w)
        = Inr (JList [JStr ''build_wheel'',
                      JObj [(''kwargs'',
                             JObj [(''wheel_directory'', JStr (abspath w wheel_directory)),
                                   (''config_settings'', config_settings),
                                   (''metadata_directory'', JNull)])]])
    \<and> fst (build_wheel (self\<lparr>subprocess_runner_attr := input_probe\<rparr>)
             wheel_directory config_settings (Some metadata_directory) w)
        = Inr (JList [JStr ''build_wheel'',
                      JObj [(''kwargs'',
                             JObj [(''wheel_directory'', JStr (abspath w wheel_directory)),
                                   (''config_settings'', config_settings),
                                   (''metadata_directory'',
                                    JStr (abspath w metadata_directory))])]])
    \<and> fst (get_requires_for_build_sdist (self\<lparr>subprocess_runner_attr := input_probe\<rparr>)
             config_settings w)
        = Inr (JList [JStr ''get_requires_for_build_sdist'',
                      JObj [(''kwargs'', JObj [(''config_settings'', config_settings)])]])
    \<and> fst (build_sdist (self\<lparr>subprocess_runner_attr := input_probe\<rparr>)
             sdist_directory config_settings w)
        = Inr (JList [JStr ''build_sdist'',
                      JObj [(''kwargs'',
                             JObj [(''sdist_directory'', JStr (abspath w sdist_directory)),
                                   (''config_settings'', config_settings)])]]))"
proof -
  have safe:
   "get_requires_for_build_wheel
      (self\<lparr>subprocess_runner_attr :=
         run_only_when
           (input_written w ''get_requires_for_build_wheel''
              (JObj [(''config_settings'', config_settings)]))
           (subprocess_runner_attr self) other\<rparr>) config_settings w
    = get_requires_for_build_wheel self config_settings w
  \<and> prepare_metadata_for_build_wheel
      (self\<lparr>subprocess_runner_attr :=
         run_only_when
           (input_written w ''prepare_metadata_for_build_wheel''
              (JObj [(''metadata_directory'', JStr (abspath w metadata_directory)),
                     (''config_settings'', config_settings)]))
           (subprocess_runner_attr self) other\<rparr>) metadata_directory config_settings w
    = prepare_metadata_for_build_wheel self metadata_directory config_settings w
  \<and> build_wheel
      (self\<lparr>subprocess_runner_attr :=
         run_only_when
           (input_written w ''build_wheel''
              (JObj [(''wheel_directory'', JStr (abspath w wheel_directory)),
                     (''config_settings'', config_settings),
                     (''metadata_directory'', JNull)]))
           (subprocess_runner_attr self) other\<rparr>) wheel_directory config_settings None w
    = build_wheel self wheel_directory config_settings None w
  \<and> build_wheel
      (self\<lparr>subprocess_runner_attr :=
         run_only_when
           (input_written w ''build_wheel''
              (JObj [(''wheel_directory'', JStr (abspath w wheel_directory)),
                     (''config_settings'', config_settings),
                     (''metadata_directory'', JStr (abspath w metadata_directory))]))
           (subprocess_runner_attr self) other\<rparr>)
      wheel_directory config_settings (Some metadata_directory) w
    = build_wheel self wheel_directory config_settings (Some metadata_directory) w
  \<and> get_requires_for_build_sdist
      (self\<lparr>subprocess_runner_attr :=
         run_only_when
           (input_written w ''get_requires_for_build_sdist''
              (JObj [(''config_settings'', config_settings)]))
           (subprocess_runner_attr self) other\<rparr>) config_settings w
    = get_requires_for_build_sdist self config_settings w
  \<and> build_sdist
      (self\<lparr>subprocess_runner_attr :=
         run_only_when
           (input_written w ''build_sdist''
              (JObj [(''sdist_directory'', JStr (abspath w sdist_directory)),
                     (''config_settings'', config_settings)]))
           (subprocess_runner_attr self) other\<rparr>) sdist_directory config_settings w
    = build_sdist self sdist_directory config_settings w"
    by (simp add: get_requires_for_build_wheel_def prepare_metadata_for_build_wheel_def
        build_wheel_def get_requires_for_build_sdist_def build_sdist_def
        call_hook_input_written)
  have absolute: "isabs (abspath w metadata_directory) \<and> isabs (abspath w wheel_directory)
                  \<and> isabs (abspath w sdist_directory)"
    by (simp add: abspath_absolute [OF cwd])
  have started:
    "fst (get_requires_for_build_wheel (self\<lparr>subprocess_runner_attr := input_probe\<rparr>)
             config_settings w)
        = Inr (JList [JStr ''get_requires_for_build_wheel'',
                      JObj [(''kwargs'', JObj [(''config_settings'', config_settings)])]])
    \<and> fst (prepare_metadata_for_build_wheel (self\<lparr>subprocess_runner_attr := input_probe\<rparr>)
             metadata_directory config_settings w)
        = Inr (JList [JStr ''prepare_metadata_for_build_wheel'',
                      JObj [(''kwargs'',
                             JObj [(''metadata_directory'', JStr (abspath w metadata_directory)),
                                   (''config_settings'', config_settings)])]])
    \<and> fst (build_wheel (self\<lparr>subprocess_runner_attr := input_probe\<rparr>)
             wheel_directory config_settings None w)
        = Inr (JList [JStr ''build_wheel'',
                      JObj [(''kwargs'',
                             JObj [(''wheel_directory'', JStr (abspath w wheel_directory)),
                                   (''config_settings'', config_settings),
                                   (''metadata_directory'', JNull)])]])
    \<and> fst (build_wheel (self\<lparr>subprocess_runner_attr := input_probe\<rparr>)
             wheel_directory config_settings (Some metadata_directory) w)
        = Inr (JList [JStr ''build_wheel'',
                      JObj [(''kwargs'',
                             JObj [(''wheel_directory'', JStr (abspath w wheel_directory)),
                                   (''config_settings'', config_settings),
                                   (''metadata_directory'',
                                    JStr (abspath w metadata_directory))])]])
    \<and> fst (get_requires_for_build_sdist (self\<lparr>subprocess_runner_attr := input_probe\<rparr>)
             config_settings w)
        = Inr (JList [JStr ''get_requires_for_build_sdist'',
                      JObj [(''kwargs'', JObj [(''config_settings'', config_settings)])]])
    \<and> fst (build_sdist (self\<lparr>subprocess_runner_attr := input_probe\<rparr>)
             sdist_directory config_settings w)
        = Inr (JList [JStr ''build_sdist'',
                      JObj [(''kwargs'',
                             JObj [(''sdist_directory'', JStr (abspath w sdist_directory)),
                                   (''config_settings'', config_settings)])]])"
    if env: "hook_environ w self = Inr env"
    by (simp add: get_requires_for_build_wheel_def prepare_metadata_for_build_wheel_def
        build_wheel_def get_requires_for_build_sdist_def build_sdist_def
        call_hook_input_probe [OF env])
  from safe absolute started show ?thesis by blast
qed

theorem hooks_write_input_file_witness:
  "isabs (getcwd example_world)
   \<and> build_sdist
      ((example_caller JNull)\<lparr>subprocess_runner_attr :=
         run_only_when
           (input_written example_world ''build_sdist''
              (JObj [(''sdist_directory'', JStr ''/home/user/dist''),
                     (''config_settings'', JNull)]))
           (subprocess_runner_attr (example_caller JNull)) (failing_runner OSError)\<rparr>)
      ''dist'' JNull example_world
    = build_sdist (example_caller JNull) ''dist'' JNull example_world
   \<and> isabs ''/home/user/dist''
   \<and> fst (build_sdist ((example_caller JNull)\<lparr>subprocess_runner_attr := input_probe\<rparr>)
            ''dist'' JNull example_world)
     = Inr (JList [JStr ''build_sdist'',
                   JObj [(''kwargs'',
                          JObj [(''sdist_directory'', JStr ''/home/user/dist''),
                                (''config_settings'', JNull)])]])"
proof -
  have cwd: "isabs (getcwd example_world)"
    by (simp add: example_world_def isabs_def)
  note env = example_environ [of JNull]
  from hooks_write_input_file
         [OF cwd, where self = "example_caller JNull" and config_settings = JNull
          and other = "failing_runner OSError" and sdist_directory = "''dist''"
          and wheel_directory = "''dist''" and metadata_directory = "''dist''"
          and env = "[''PEP517_BUILD_BACKEND'' \<mapsto> ''setuptools.build_meta'']"]
  show ?thesis
    unfolding abspath_dist using cwd env by blast
qed

section \<open>An empty backend path, and markers that are false\<close>

text \<open>
  C9. With an empty backend path the constructor checks nothing: it returns, for every
  source directory, and stores the empty list (and \<^verbatim>\<open>None\<close> for \<^verbatim>\<open>None\<close>). A caller
  whose backend path is \<^verbatim>\<open>None\<close> or empty starts its runner only with an overlay that
  has no \<^verbatim>\<open>PEP517_BACKEND_PATH\<close>.
\<close>

theorem empty_backend_path_is_absent:
  "init w d b (Some []) =
     Inr \<lparr>source_dir = abspath w d, build_backend = b, backend_path = Some [],
          subprocess_runner_attr = default_subprocess_runner\<rparr>
   \<and> init w d b None =
     Inr \<lparr>source_dir = abspath w d, build_backend = b, backend_path = None,
          subprocess_runner_attr = default_subprocess_runner\<rparr>
   \<and> (backend_path self = None \<or> backend_path self = Some [] \<longrightarrow>
        call_hook
          (self\<lparr>subprocess_runner_attr :=
             run_only_when
               (\<lambda>cmd cwd extra_environ v.
                  case extra_environ of
                    None \<Rightarrow> False
                  | Some env \<Rightarrow> env ''PEP517_BACKEND_PATH'' = None)
               (subprocess_runner_attr self) other\<rparr>)
          hook_name kwargs w
        = call_hook self hook_name kwargs w)"
proof -
  have "call_hook
          (self\<lparr>subprocess_runner_attr :=
             run_only_when
               (\<lambda>cmd cwd extra_environ v.
                  case extra_environ of
                    None \<Rightarrow> False
                  | Some env \<Rightarrow> env ''PEP517_BACKEND_PATH'' = None)
               (subprocess_runner_attr self) other\<rparr>)
          hook_name kwargs w
        = call_hook self hook_name kwargs w"
    if "backend_path self = None \<or> backend_path self = Some []"
    using that
    by (intro call_hook_run_only_when)
       (auto simp: hook_environ_def Let_def split: if_splits sum.splits)
  then show ?thesis
    by (simp add: init_def)
qed

theorem empty_backend_path_is_absent_witness:
  "call_hook
     ((example_caller JNull)\<lparr>backend_path := Some [],
        subprocess_runner_attr :=
          run_only_when
            (\<lambda>cmd cwd extra_environ v.
               case extra_environ of
                 None \<Rightarrow> False
               | Some env \<Rightarrow> env ''PEP517_BACKEND_PATH'' = None)
            (subprocess_runner_attr ((example_caller JNull)\<lparr>backend_path := Some []\<rparr>))
            (failing_runner OSError)\<rparr>)
     ''build_sdist'' JNull example_world
   = call_hook ((example_caller JNull)\<lparr>backend_path := Some []\<rparr>)
       ''build_sdist'' JNull example_world"
proof -
  have "backend_path ((example_caller JNull)\<lparr>backend_path := Some []\<rparr>) = None
        \<or> backend_path ((example_caller JNull)\<lparr>backend_path := Some []\<rparr>) = Some []"
    by simp
  with empty_backend_path_is_absent
         [where self = "(example_caller JNull)\<lparr>backend_path := Some []\<rparr>"
          and other = "failing_runner OSError" and hook_name = "''build_sdist''"
          and kwargs = JNull and w = example_world and d = "''''" and b = "''''"]
  show ?thesis by blast
qed

lemma dict_get_filter_other:
  "k \<noteq> key \<Longrightarrow> dict_get (filter (\<lambda>e. fst e \<noteq> key) items) k d = dict_get items k d"
  by (simp add: dict_get_def map_of_filter_other)

lemma dict_get_filter_same: "dict_get (filter (\<lambda>e. fst e \<noteq> key) items) key d = d"
  by (simp add: dict_get_def map_of_filter_same)

lemma hook_result_falsy_marker:
  assumes "key = ''unsupported'' \<or> key = ''no_backend'' \<or> key = ''backend_invalid''"
    and "map_of items key = Some v" and "\<not> truthy v"
  shows "hook_result self (JObj (filter (\<lambda>e. fst e \<noteq> key) items))
         = hook_result self (JObj items)"
proof -
  have falsy: "\<not> truthy (dict_get items key JNull)"
    using assms by (simp add: dict_get_def)
  from assms(1) show ?thesis
  proof (elim disjE)
    assume k: "key = ''unsupported''"
    with falsy show ?thesis
      by (simp add: hook_result_def dict_get_filter_other dict_get_filter_same
          map_of_filter_other)
  next
    assume k: "key = ''no_backend''"
    with falsy show ?thesis
      by (simp add: hook_result_def dict_get_filter_other dict_get_filter_same
          map_of_filter_other)
  next
    assume k: "key = ''backend_invalid''"
    with falsy show ?thesis
      by (simp add: hook_result_def dict_get_filter_other dict_get_filter_same
          map_of_filter_other)
  qed
qed

text \<open>
  C10. Let the environment be built and let the backend be a stub that writes the
  dictionary \<open>items\<close>. A marker (\<^verbatim>\<open>unsupported\<close>, \<^verbatim>\<open>no_backend\<close> or
  \<^verbatim>\<open>backend_invalid\<close>) whose value is false in Python's sense changes nothing: the call
  ends as it does for the dictionary without the marker. When \<^verbatim>\<open>unsupported\<close> is true
  the call raises \<^verbatim>\<open>UnsupportedOperation\<close>, whatever the other markers are; when it is
  false and \<^verbatim>\<open>no_backend\<close> is true the call raises \<^verbatim>\<open>BackendUnavailable\<close>, whatever
  \<^verbatim>\<open>backend_invalid\<close> is; when both are false and \<^verbatim>\<open>backend_invalid\<close> is true it
  raises \<^verbatim>\<open>BackendInvalid\<close>.
\<close>

theorem markers_judged_by_truth:
  assumes env: "hook_environ w self = Inr env"
  shows
   "((key = ''unsupported'' \<or> key = ''no_backend'' \<or> key = ''backend_invalid'')
       \<and> map_of items key = Some v \<and> \<not> truthy v \<longrightarrow>
      fst (call_hook (self\<lparr>subprocess_runner_attr := backend_stub (JObj items)\<rparr>)
             hook_name kwargs w)
      = fst (call_hook (self\<lparr>subprocess_runner_attr :=
                           backend_stub (JObj (filter (\<lambda>e. fst e \<noteq> key) items))\<rparr>)
               hook_name kwargs w))
    \<and> (truthy (dict_get items ''unsupported'' JNull) \<longrightarrow>
      fst (call_hook (self\<lparr>subprocess_runner_attr := backend_stub (JObj items)\<rparr>)
             hook_name kwargs w)
      = Inl (UnsupportedOperation (dict_get items ''traceback'' (JStr []))))
    \<and> (\<not> truthy (dict_get items ''unsupported'' JNull)
         \<and> truthy (dict_get items ''no_backend'' JNull) \<longrightarrow>
      fst (call_hook (self\<lparr>subprocess_runner_attr := backend_stub (JObj items)\<rparr>)
             hook_name kwargs w)
      = Inl (BackendUnavailable (dict_get items ''traceback'' (JStr []))))
    \<and> (\<not> truthy (dict_get items ''unsupported'' JNull)
         \<and> \<not> truthy (dict_get items ''no_backend'' JNull)
         \<and> truthy (dict_get items ''backend_invalid'' JNull) \<longrightarrow>
      fst (call_hook (self\<lparr>subprocess_runner_attr := backend_stub (JObj items)\<rparr>)
             hook_name kwargs w)
      = Inl (BackendInvalid (build_backend self) (backend_path self)
               (dict_get items ''backend_error'' (JStr []))))"
  by (simp add: call_hook_backend_stub [OF env] hook_result_falsy_marker)
     (simp add: hook_result_def)

theorem markers_judged_by_truth_witness:
  "fst (call_hook ((example_caller JNull)\<lparr>subprocess_runner_attr :=
          backend_stub (JObj [(''unsupported'', JBool False), (''return_val'', JInt 1)])\<rparr>)
        ''build_sdist'' JNull example_world)
   = fst (call_hook ((example_caller JNull)\<lparr>subprocess_runner_attr :=
          backend_stub (JObj [(''return_val'', JInt 1)])\<rparr>)
        ''build_sdist'' JNull example_world)
   \<and> fst (call_hook ((example_caller JNull)\<lparr>subprocess_runner_attr :=
          backend_stub (JObj [(''unsupported'', JBool True), (''no_backend'', JBool True),
                               (''backend_invalid'', JBool True), (''traceback'', JStr ''T'')])\<rparr>)
        ''build_sdist'' JNull example_world)
     = Inl (UnsupportedOperation (JStr ''T''))
   \<and> fst (call_hook ((example_caller JNull)\<lparr>subprocess_runner_attr :=
          backend_stub (JObj [(''unsupported'', JInt 0), (''no_backend'', JBool True),
                               (''backend_invalid'', JBool True), (''traceback'', JStr ''T'')])\<rparr>)
        ''build_sdist'' JNull example_world)
     = Inl (BackendUnavailable (JStr ''T''))
   \<and> fst (call_hook ((example_caller JNull)\<lparr>subprocess_runner_attr :=
          backend_stub (JObj [(''unsupported'', JStr []), (''no_backend'', JNull),
                               (''backend_invalid'', JBool True),
                               (''backend_error'', JStr ''E'')])\<rparr>)
        ''build_sdist'' JNull example_world)
     = Inl (BackendInvalid ''setuptools.build_meta'' None (JStr ''E''))"
proof -
  note env = example_environ [of JNull]
  let ?a = "[(''unsupported'', JBool False), (''return_val'', JInt 1)]"
  let ?b = "[(''unsupported'', JBool True), (''no_backend'', JBool True),
             (''backend_invalid'', JBool True), (''traceback'', JStr ''T'')]"
  let ?c = "[(''unsupported'', JInt 0), (''no_backend'', JBool True),
             (''backend_invalid'', JBool True), (''traceback'', JStr ''T'')]"
  let ?d = "[(''unsupported'', JStr []), (''no_backend'', JNull),
             (''backend_invalid'', JBool True), (''backend_error'', JStr ''E'')]"
  have a: "(''unsupported'' = ''unsupported'' \<or> ''unsupported'' = ''no_backend''
             \<or> ''unsupported'' = ''backend_invalid'')
           \<and> map_of ?a ''unsupported'' = Some (JBool False) \<and> \<not> truthy (JBool False)"
    by simp
  have f: "filter (\<lambda>e. fst e \<noteq> ''unsupported'') ?a = [(''return_val'', JInt 1)]"
    by simp
  have b: "truthy (dict_get ?b ''unsupported'' JNull)"
    by (simp add: dict_get_def)
  have tb: "dict_get ?b ''traceback'' (JStr []) = JStr ''T''"
    by (simp add: dict_get_def)
  have c: "\<not> truthy (dict_get ?c ''unsupported'' JNull)
           \<and> truthy (dict_get ?c ''no_backend'' JNull)"
    by (simp add: dict_get_def)
  have tc: "dict_get ?c ''traceback'' (JStr []) = JStr ''T''"
    by (simp add: dict_get_def)
  have d: "\<not> truthy (dict_get ?d ''unsupported'' JNull)
           \<and> \<not> truthy (dict_get ?d ''no_backend'' JNull)
           \<and> truthy (dict_get ?d ''backend_invalid'' JNull)"
    by (simp add: dict_get_def)
  have td: "dict_get ?d ''backend_error'' (JStr []) = JStr ''E''"
    by (simp add: dict_get_def)
  have who: "build_backend (example_caller JNull) = ''setuptools.build_meta''
             \<and> backend_path (example_caller JNull) = None"
    by (simp add: example_caller_def)
  from markers_judged_by_truth
         [OF env, where key = "''unsupported''" and items = ?a and v = "JBool False"
          and hook_name = "''build_sdist''" and kwargs = JNull] a
  have r1: "fst (call_hook ((example_caller JNull)\<lparr>subprocess_runner_attr :=
                   backend_stub (JObj ?a)\<rparr>) ''build_sdist'' JNull example_world)
            = fst (call_hook ((example_caller JNull)\<lparr>subprocess_runner_attr :=
                   backend_stub (JObj [(''return_val'', JInt 1)])\<rparr>)
                ''build_sdist'' JNull example_world)"
    unfolding f by blast
  from markers_judged_by_truth
         [OF env, where key = "''unsupported''" and items = ?b and v = JNull
          and hook_name = "''build_sdist''" and kwargs = JNull] b
  have r2: "fst (call_hook ((example_caller JNull)\<lparr>subprocess_runner_attr :=
                   backend_stub (JObj ?b)\<rparr>) ''build_sdist'' JNull example_world)
            = Inl (UnsupportedOperation (JStr ''T''))"
    unfolding tb by blast
  from markers_judged_by_truth
         [OF env, where key = "''unsupported''" and items = ?c and v = JNull
          and hook_name = "''build_sdist''" and kwargs = JNull] c
  have r3: "fst (call_hook ((example_caller JNull)\<lparr>subprocess_runner_attr :=
                   backend_stub (JObj ?c)\<rparr>) ''build_sdist'' JNull example_world)
            = Inl (BackendUnavailable (JStr ''T''))"
    unfolding tc by blast
  from markers_judged_by_truth
         [OF env, where key = "''unsupported''" and items = ?d and v = JNull
          and hook_name = "''build_sdist''" and kwargs = JNull] d who
  have r4: "fst (call_hook ((example_caller JNull)\<lparr>subprocess_runner_attr :=
                   backend_stub (JObj ?d)\<rparr>) ''build_sdist'' JNull example_world)
            = Inl (BackendInvalid ''setuptools.build_meta'' None (JStr ''E''))"
    unfolding td by metis
  from r1 r2 r3 r4 show ?thesis by blast
qed

section \<open>A call from end to end\<close>

text \<open>
  The default runner with a child that ends with status 1 and writes nothing: the hook
  call raises \<^verbatim>\<open>CalledProcessError\<close>, and the file system is empty again afterwards.
\<close>

lemma example_mkdtemp:
  "mkdtemp example_world = (''/tmp/tmpx'', example_world\<lparr>entries := [(''/tmp/tmpx'', Dir)]\<rparr>)"
  by (simp add: mkdtemp_def fresh_name_def example_world_def Let_def)

lemma example_exit_status:
  "fst (call_hook \<lparr>source_dir = ''/proj'', build_backend = ''b'', backend_path = None,
              subprocess_runner_attr = default_subprocess_runner\<rparr>
      ''build_wheel'' (JObj []) example_world)
   = Inl (CalledProcessError 1
            [''/usr/bin/python'', ''/lib/pep517/_in_process.py'', ''build_wheel'', ''/tmp/tmpx''])
   \<and> entries (snd (call_hook \<lparr>source_dir = ''/proj'', build_backend = ''b'', backend_path = None,
              subprocess_runner_attr = default_subprocess_runner\<rparr>
      ''build_wheel'' (JObj []) example_world)) = []"
proof -
  have env: "hook_environ example_world
               \<lparr>source_dir = ''/proj'', build_backend = ''b'', backend_path = None,
                  subprocess_runner_attr = default_subprocess_runner\<rparr>
             = Inr [''PEP517_BUILD_BACKEND'' \<mapsto> ''b'']"
    by (simp add: hook_environ_def example_world_def)
  show ?thesis
    apply (simp add: call_hook_def env tempdir_def example_mkdtemp)
    apply (simp add: default_subprocess_runner_def dict_copy_def dict_update_def check_call_def
        os_environ_def write_json_def pjoin_def isabs_def example_world_def rmtree_def below_def)
    done
qed

end
